theory Spec2Isabelle
  imports Complex_Main "HOL-Library.Word" "HOL-Library.Sublist"
begin

section \<open>Python values, errors and the platform\<close>

text \<open>
  The values a caller passes: \<open>None\<close>, booleans, integers, finite floats (by their
  exact rational value), text, bytes, lists, tuples and dictionaries keyed by text.
  A \<open>str\<close> is a list of code points below 256; a dictionary is the list of its items
  in insertion order, a later item with the same key replacing the value of the earlier.
\<close>

type_synonym bytes = "8 word list"

datatype pyval =
    PNone
  | PBool bool
  | PInt int
  | PFloat rat
  | PStr string
  | PBytes bytes
  | PList "pyval list"
  | PTuple "pyval list"
  | PDict "(string \<times> pyval) list"

text \<open>The result of \<open>float(x)\<close>, which need not be finite.\<close>

datatype pyfloat = Finite rat | PosInf | NegInf | NaN

text \<open>
  The exceptions, each with its message (an \<open>OSError\<close> also with its \<open>errno\<close>).
  \<open>RegexError\<close> is \<open>re.error\<close>.
\<close>

datatype error =
    TypeError string
  | ValueError string
  | OSError "int option" string
  | OverflowError string
  | RecursionError string
  | ExpatError string
  | RegexError string

text \<open>
  What the code asks of the interpreter's library and of the operating system is a
  parameter of the model. Each call either returns or raises, and the exception it
  raises is part of its answer:
  \<^item> \<open>read_file p\<close>: \<open>open(p, 'rb')\<close> and \<open>f.read()\<close> on a text \<open>p\<close> with no NUL
    character: the bytes read, or the exception raised (an \<open>OSError\<close>, of which
    \<open>FileNotFoundError\<close> and \<open>IOError\<close> are cases, when the file cannot be read);
  \<^item> \<open>path_exists p\<close>: \<open>Path(p).exists()\<close> of a text, which returns a truth value or
    raises (an \<open>OSError\<close> for a name too long or a directory that may not be searched);
  \<^item> \<open>json_dumps v\<close>: the text \<open>json.dumps(v)\<close> returns, or the exception it raises
    (\<open>TypeError\<close> for a value it cannot serialise, \<open>RecursionError\<close> for one nested
    too deep);
  \<^item> \<open>json_loads s\<close>: \<open>None\<close> when \<open>json.loads(s)\<close> returns, else the exception it
    raises (\<open>ValueError\<close> for a text that is not JSON);
  \<^item> \<open>parseString s\<close>: \<open>None\<close> when \<open>parseString(s)\<close> returns, else the exception it
    raises (\<open>ExpatError\<close> for a text that is not well-formed XML);
  \<^item> \<open>int_of_str s\<close>, \<open>int_of_bytes b\<close>: \<open>int(x)\<close> of a text or of bytes, \<open>None\<close> when
    it raises \<open>ValueError\<close>;
  \<^item> \<open>float_of_str s\<close>, \<open>float_of_bytes b\<close>: \<open>float(x)\<close> of a text or of bytes, \<open>None\<close>
    when it raises \<open>ValueError\<close>;
  \<^item> \<open>float_of_int i\<close>: \<open>float(i)\<close>, \<open>None\<close> when it raises \<open>OverflowError\<close>;
  \<^item> \<open>repr_bytes b\<close>: the text \<open>'%s' % b\<close> of a bytes object;
  \<^item> \<open>re_match p s\<close>: whether \<open>re.match(p, s, re.U)\<close> returns a match object for the
    text pattern \<open>p\<close>, or the exception it raises (\<open>re.error\<close> for a pattern that does
    not compile).
\<close>

record platform =
  read_file :: "string \<Rightarrow> error + bytes"
  path_exists :: "string \<Rightarrow> error + bool"
  json_dumps :: "pyval \<Rightarrow> error + string"
  json_loads :: "string \<Rightarrow> error option"
  parseString :: "string \<Rightarrow> error option"
  int_of_str :: "string \<Rightarrow> int option"
  int_of_bytes :: "bytes \<Rightarrow> int option"
  float_of_str :: "string \<Rightarrow> pyfloat option"
  float_of_bytes :: "bytes \<Rightarrow> pyfloat option"
  float_of_int :: "int \<Rightarrow> pyfloat option"
  repr_bytes :: "bytes \<Rightarrow> string"
  re_match :: "string \<Rightarrow> string \<Rightarrow> error + bool"

subsection \<open>Built-in operations\<close>

text \<open>Truth value of an object, as \<open>if x:\<close> tests it.\<close>

fun truthy :: "pyval \<Rightarrow> bool" where
  "truthy PNone = False"
| "truthy (PBool b) = b"
| "truthy (PInt i) = (i \<noteq> 0)"
| "truthy (PFloat r) = (r \<noteq> 0)"
| "truthy (PStr s) = (s \<noteq> [])"
| "truthy (PBytes b) = (b \<noteq> [])"
| "truthy (PList xs) = (xs \<noteq> [])"
| "truthy (PTuple xs) = (xs \<noteq> [])"
| "truthy (PDict kvs) = (kvs \<noteq> [])"

text \<open>\<open>str.encode()\<close>: UTF-8, one byte below 128 and two bytes from 128 to 255.\<close>

definition encode_char :: "char \<Rightarrow> bytes" where
  "encode_char c =
     (let n = (of_char c :: nat)
      in if n < 128 then [of_nat n]
         else [of_nat (192 + n div 64), of_nat (128 + n mod 64)])"

definition encode :: "string \<Rightarrow> bytes" where
  "encode s = concat (map encode_char s)"

text \<open>
  \<open>str.upper()\<close> on the ASCII letters. A code point from 128 to 255 is left as it is:
  Python maps none of them to text that occurs in an allowed method name, so the
  membership test of the constructor is the same.
\<close>

definition upper_char :: "char \<Rightarrow> char" where
  "upper_char c =
     (let n = (of_char c :: nat)
      in if 97 \<le> n \<and> n \<le> 122 then char_of (n - 32) else c)"

definition upper :: "string \<Rightarrow> string" where
  "upper s = map upper_char s"

text \<open>\<open>str.isspace()\<close> of one code point below 256, and \<open>str.strip()\<close>.\<close>

definition isspace :: "char \<Rightarrow> bool" where
  "isspace c = ((of_char c :: nat) \<in> {9, 10, 11, 12, 13, 28, 29, 30, 31, 32, 133, 160})"

definition strip :: "string \<Rightarrow> string" where
  "strip s = rev (dropWhile isspace (rev (dropWhile isspace s)))"

text \<open>\<open>bytes.strip()\<close>, which removes the ASCII whitespace.\<close>

definition bytes_isspace :: "8 word \<Rightarrow> bool" where
  "bytes_isspace w = (unat w \<in> {9, 10, 11, 12, 13, 32})"

definition bytes_strip :: "bytes \<Rightarrow> bytes" where
  "bytes_strip b = rev (dropWhile bytes_isspace (rev (dropWhile bytes_isspace b)))"

text \<open>\<open>str.startswith(p)\<close>.\<close>

definition startswith :: "string \<Rightarrow> string \<Rightarrow> bool" where
  "startswith s p = (take (length p) s = p)"

text \<open>
  \<open>Path(p).suffix\<close> on a POSIX path that names a file: the final component is what
  follows the last slash, and its suffix starts at its last dot when that dot is
  neither its first nor its last character.
\<close>

definition path_name :: "string \<Rightarrow> string" where
  "path_name p = rev (takeWhile (\<lambda>c. c \<noteq> CHR ''/'') (rev p))"

definition path_suffix :: "string \<Rightarrow> string" where
  "path_suffix p =
     (let name = path_name p;
          ext = rev (takeWhile (\<lambda>c. c \<noteq> CHR ''.'') (rev name))
      in if CHR ''.'' \<in> set name \<and> ext \<noteq> [] \<and> length ext + 1 < length name
         then CHR ''.'' # ext else [])"

text \<open>
  \<open>open(p, 'rb')\<close> and the read, for a text \<open>p\<close>: a NUL character in \<open>p\<close> raises
  \<open>ValueError\<close> before the file system is asked.
\<close>

definition open_rb :: "platform \<Rightarrow> string \<Rightarrow> error + bytes" where
  "open_rb pf p =
     (if CHR 0x00 \<in> set p then Inl (ValueError ''embedded null byte'') else read_file pf p)"

section \<open>route.py\<close>

definition CTYPES :: "(string \<times> string) list" where
  "CTYPES =
    [(''.htm'', ''text/html''),
     (''.html'', ''text/html''),
     (''.css'', ''text/css''),
     (''.js'', ''application/javascript''),
     (''.json'', ''application/json''),
     (''.xml'', ''application/xml''),
     (''.csv'', ''text/csv''),
     (''.txt'', ''text/plain''),
     (''.csh'', ''application/x-csh''),
     (''.sh'', ''application/x-sh''),
     (''.jpg'', ''image/jpeg''),
     (''.jpeg'', ''image/jpeg''),
     (''.png'', ''image/png''),
     (''.gif'', ''image/gif''),
     (''.bmp'', ''image/bmp''),
     (''.ico'', ''image/x-icon''),
     (''.svg'', ''image/svg+xml''),
     (''.webp'', ''image/webp''),
     (''.tif'', ''image/tiff''),
     (''.tiff'', ''image/tiff''),
     (''.mp3'', ''audio/mpeg''),
     (''.aac'', ''audio/aac''),
     (''.mid'', ''audio/midi''),
     (''.midi'', ''audio/midi''),
     (''.oga'', ''audio/ogg''),
     (''.wav'', ''audio/x-wav''),
     (''.weba'', ''audio/webm''),
     (''.3g2'', ''audio/3gpp2''),
     (''.mpeg'', ''video/mpeg''),
     (''.ogv'', ''video/ogg''),
     (''.avi'', ''video/x-msvideo''),
     (''.3gp'', ''video/3gpp''),
     (''.webm'', ''video/webm''),
     (''.7z'', ''application/x-7z-compressed''),
     (''.bz'', ''application/x-bzip''),
     (''.bz2'', ''application/x-bzip2''),
     (''.jar'', ''application/java-archive''),
     (''.tar'', ''application/x-tar''),
     (''.zip'', ''application/zip''),
     (''.rar'', ''application/x-rar-compressed''),
     (''.ttf'', ''font/ttf''),
     (''.otf'', ''font/otf''),
     (''.woff'', ''font/woff''),
     (''.woff2'', ''font/woff2''),
     (''.eot'', ''application/vnd.ms-fontobject''),
     (''.bin'', ''application/octet-stream''),
     (''.swf'', ''application/x-shockwave-flash''),
     (''.pdf'', ''application/pdf'')]"

text \<open>\<open>CTYPES.get(ext, default)\<close>.\<close>

definition ctypes_get :: "string \<Rightarrow> string \<Rightarrow> string" where
  "ctypes_get ext dflt = (case map_of CTYPES ext of Some t \<Rightarrow> t | None \<Rightarrow> dflt)"

definition ALLOWED :: "string list" where
  "ALLOWED = [''GET'', ''POST'', ''PUT'', ''DELETE'']"

text \<open>
  \<open>is_json\<close> and \<open>is_xml\<close> return \<open>False\<close> on the one exception they catch; any other
  exception of the parser leaves them.
\<close>

definition is_json :: "platform \<Rightarrow> string \<Rightarrow> error + bool" where
  "is_json pf data =
     (case json_loads pf data of
        None \<Rightarrow> Inr True
      | Some (ValueError msg) \<Rightarrow> Inr False
      | Some e \<Rightarrow> Inl e)"

definition is_xml :: "platform \<Rightarrow> string \<Rightarrow> error + bool" where
  "is_xml pf data =
     (case parseString pf data of
        None \<Rightarrow> Inr True
      | Some (ExpatError msg) \<Rightarrow> Inr False
      | Some e \<Rightarrow> Inl e)"

definition is_html :: "string \<Rightarrow> bool" where
  "is_html data =
     (if startswith data ''<!DOCTYPE html'' \<or> startswith data ''<html'' then True
      else False)"

text \<open>The chain \<open>if is_json ... elif is_html ... elif is_xml ... else\<close> of the handler.\<close>

definition sniff :: "platform \<Rightarrow> string \<Rightarrow> error + string" where
  "sniff pf obj =
     (case is_json pf obj of
        Inl e \<Rightarrow> Inl e
      | Inr True \<Rightarrow> Inr ''application/json''
      | Inr False \<Rightarrow>
          if is_html obj then Inr ''text/html''
          else (case is_xml pf obj of
                  Inl e \<Rightarrow> Inl e
                | Inr True \<Rightarrow> Inr ''application/xml''
                | Inr False \<Rightarrow> Inr ''text/plain''))"

fun parse_response :: "platform \<Rightarrow> pyval \<Rightarrow> error + (bytes \<times> string)" where
  "parse_response pf (PDict kvs) =
     (case json_dumps pf (PDict kvs) of
        Inl e \<Rightarrow> Inl e
      | Inr text \<Rightarrow> Inr (encode text, ''application/json''))"
| "parse_response pf (PStr obj) =
     (case open_rb pf obj of
        Inr data \<Rightarrow> Inr (data, ctypes_get (path_suffix obj) ''text/plain'')
      | Inl (OSError no msg) \<Rightarrow>
          (case sniff pf obj of
             Inl e \<Rightarrow> Inl e
           | Inr ctype \<Rightarrow> Inr (encode obj, ctype))
      | Inl e \<Rightarrow> Inl e)"
| "parse_response pf _ = Inl (TypeError ''Response data should be str or dict'')"

subsection \<open>The headers dictionary\<close>

text \<open>
  The headers of a route are a dictionary the code fills itself, so its keys are any
  hashable values. Two keys are the same key when they are equal in Python: \<open>True\<close>,
  \<open>1\<close> and \<open>1.0\<close> are one key. \<open>norm_key\<close> maps equal keys to one value.
\<close>

fun norm_key :: "pyval \<Rightarrow> pyval" where
  "norm_key (PBool b) = PInt (if b then 1 else 0)"
| "norm_key (PFloat r) = (if r = of_int \<lfloor>r\<rfloor> then PInt \<lfloor>r\<rfloor> else PFloat r)"
| "norm_key (PTuple xs) = PTuple (map norm_key xs)"
| "norm_key v = v"

fun hashable :: "pyval \<Rightarrow> bool" where
  "hashable (PList xs) = False"
| "hashable (PDict kvs) = False"
| "hashable (PTuple xs) = list_all hashable xs"
| "hashable v = True"

type_synonym pydict = "(pyval \<times> pyval) list"

text \<open>\<open>d[k] = v\<close>: an existing key keeps its place and takes the new value.\<close>

fun dict_set :: "pydict \<Rightarrow> pyval \<Rightarrow> pyval \<Rightarrow> pydict" where
  "dict_set [] k v = [(k, v)]"
| "dict_set ((k', v') # d) k v =
     (if norm_key k' = norm_key k then (k', v) # d else (k', v') # dict_set d k v)"

text \<open>\<open>d.get(k)\<close>.\<close>

fun dict_get :: "pydict \<Rightarrow> pyval \<Rightarrow> pyval option" where
  "dict_get [] k = None"
| "dict_get ((k', v') # d) k = (if norm_key k' = norm_key k then Some v' else dict_get d k)"

text \<open>The keys of a dictionary value, each once, in insertion order.\<close>

definition dict_keys :: "(string \<times> pyval) list \<Rightarrow> string list" where
  "dict_keys kvs = rev (remdups (rev (map fst kvs)))"

text \<open>
  \<open>d.update(other)\<close>, \<open>None\<close> when it raises \<open>TypeError\<close> or \<open>ValueError\<close>. A
  dictionary is merged item by item. Any other iterable must yield sequences of two
  elements, a hashable key and a value: a text yields its characters, each of
  length one, bytes yield integers, and a number is not iterable.
\<close>

fun seq_pair :: "pyval \<Rightarrow> (pyval \<times> pyval) option" where
  "seq_pair (PStr s) = (case s of [a, b] \<Rightarrow> Some (PStr [a], PStr [b]) | _ \<Rightarrow> None)"
| "seq_pair (PBytes b) = (case b of [x, y] \<Rightarrow> Some (PInt (uint x), PInt (uint y)) | _ \<Rightarrow> None)"
| "seq_pair (PList xs) = (case xs of [k, v] \<Rightarrow> Some (k, v) | _ \<Rightarrow> None)"
| "seq_pair (PTuple xs) = (case xs of [k, v] \<Rightarrow> Some (k, v) | _ \<Rightarrow> None)"
| "seq_pair (PDict kvs) =
     (case dict_keys kvs of [a, b] \<Rightarrow> Some (PStr a, PStr b) | _ \<Rightarrow> None)"
| "seq_pair v = None"

fun update_seq :: "pydict \<Rightarrow> pyval list \<Rightarrow> pydict option" where
  "update_seq d [] = Some d"
| "update_seq d (e # es) =
     (case seq_pair e of
        None \<Rightarrow> None
      | Some (k, v) \<Rightarrow> if hashable k then update_seq (dict_set d k v) es else None)"

fun dict_update :: "pydict \<Rightarrow> pyval \<Rightarrow> pydict option" where
  "dict_update d (PDict kvs) = Some (fold (\<lambda>(k, v) d'. dict_set d' (PStr k) v) kvs d)"
| "dict_update d (PList xs) = update_seq d xs"
| "dict_update d (PTuple xs) = update_seq d xs"
| "dict_update d (PStr s) = update_seq d (map (\<lambda>c. PStr [c]) s)"
| "dict_update d v = None"

text \<open>\<open>int(x)\<close>, \<open>None\<close> when it raises \<open>TypeError\<close> or \<open>ValueError\<close>.\<close>

fun py_int :: "platform \<Rightarrow> pyval \<Rightarrow> int option" where
  "py_int pf (PInt i) = Some i"
| "py_int pf (PBool b) = Some (if b then 1 else 0)"
| "py_int pf (PFloat r) = Some (if 0 \<le> r then \<lfloor>r\<rfloor> else \<lceil>r\<rceil>)"
| "py_int pf (PStr s) = int_of_str pf s"
| "py_int pf (PBytes b) = int_of_bytes pf b"
| "py_int pf v = None"

subsection \<open>Route\<close>

text \<open>
  The attribute \<open>method\<close> of the source is the field \<open>meth\<close>. The path is the object
  the caller passed, a text or bytes.
\<close>

record route =
  meth :: string
  path :: pyval
  data :: "bytes option"
  headers :: pydict
  status :: int

text \<open>
  The five blocks of \<open>Route.__init__\<close>, in the order of the source. A text and bytes
  have the attributes \<open>upper\<close> and \<open>strip\<close>; on any other value the call raises the
  \<open>AttributeError\<close> that the handler turns into \<open>TypeError\<close>. The upper-case form of
  bytes is bytes and so is equal to none of the allowed methods, which are texts.
\<close>

definition init_method :: "platform \<Rightarrow> pyval \<Rightarrow> error + string" where
  "init_method pf m =
     (case m of
        PStr s \<Rightarrow>
          if upper s \<in> set ALLOWED then Inr (upper s)
          else Inl (ValueError (''Method '' @ [CHR 0x22] @ s @ [CHR 0x22] @ '' is not allowed''))
      | PBytes b \<Rightarrow>
          Inl (ValueError (''Method '' @ [CHR 0x22] @ repr_bytes pf b @ [CHR 0x22]
                           @ '' is not allowed''))
      | _ \<Rightarrow> Inl (TypeError ''Method name should be str''))"

definition init_path :: "pyval \<Rightarrow> error + pyval" where
  "init_path p =
     (case p of
        PStr s \<Rightarrow>
          if strip s \<noteq> [] then Inr (PStr s)
          else Inl (ValueError ''Path cannot be empty'')
      | PBytes b \<Rightarrow>
          if bytes_strip b \<noteq> [] then Inr (PBytes b)
          else Inl (ValueError ''Path cannot be empty'')
      | _ \<Rightarrow> Inl (TypeError ''Path should be str''))"

definition init_data :: "platform \<Rightarrow> pyval \<Rightarrow> error + (bytes option \<times> pydict)" where
  "init_data pf d =
     (if truthy d then
        (case parse_response pf d of
           Inl e \<Rightarrow> Inl e
         | Inr (body, ctype) \<Rightarrow>
             Inr (Some body,
                  dict_set (dict_set [] (PStr ''Content-type'') (PStr ctype))
                    (PStr ''Content-length'') (PInt (int (length body)))))
      else Inr (None, []))"

definition init_headers :: "pydict \<Rightarrow> pyval \<Rightarrow> error + pydict" where
  "init_headers own h =
     (if truthy h then
        (case dict_update own h of
           Some merged \<Rightarrow> Inr merged
         | None \<Rightarrow> Inl (TypeError ''Headers should be dict''))
      else Inr own)"

definition init_status :: "platform \<Rightarrow> pyval \<Rightarrow> error + int" where
  "init_status pf s =
     (case py_int pf s of
        Some i \<Rightarrow> Inr i
      | None \<Rightarrow> Inl (TypeError ''Status code should be int''))"

definition Route_init ::
  "platform \<Rightarrow> pyval \<Rightarrow> pyval \<Rightarrow> pyval \<Rightarrow> pyval \<Rightarrow> pyval \<Rightarrow> error + route" where
  "Route_init pf m p d h s =
     (case init_method pf m of Inl e \<Rightarrow> Inl e | Inr m' \<Rightarrow>
     (case init_path p of Inl e \<Rightarrow> Inl e | Inr p' \<Rightarrow>
     (case init_data pf d of Inl e \<Rightarrow> Inl e | Inr (body, own) \<Rightarrow>
     (case init_headers own h of Inl e \<Rightarrow> Inl e | Inr hs \<Rightarrow>
     (case init_status pf s of Inl e \<Rightarrow> Inl e | Inr st \<Rightarrow>
        Inr \<lparr>meth = m', path = p', data = body, headers = hs, status = st\<rparr>)))))"

text \<open>
  \<open>Route.cast\<close>. The unpacking \<open>method, path, *opts = route\<close> raises \<open>ValueError\<close> on
  fewer than two elements; the handler around it also catches a \<open>ValueError\<close> of the
  constructor and raises its own in its place.
\<close>

fun is_list_or_tuple :: "pyval \<Rightarrow> bool" where
  "is_list_or_tuple (PList xs) = True"
| "is_list_or_tuple (PTuple xs) = True"
| "is_list_or_tuple v = False"

fun elements :: "pyval \<Rightarrow> pyval list" where
  "elements (PList xs) = xs"
| "elements (PTuple xs) = xs"
| "elements v = []"

text \<open>The handler \<open>except ValueError\<close> of \<open>cast\<close>, on the result of its \<open>try\<close>.\<close>

definition except_ValueError :: "error + route \<Rightarrow> error + route" where
  "except_ValueError res =
     (case res of
        Inl (ValueError msg) \<Rightarrow> Inl (ValueError ''Route should contain method and path'')
      | _ \<Rightarrow> res)"

definition cast :: "platform \<Rightarrow> pyval \<Rightarrow> error + route" where
  "cast pf r =
     (if truthy r \<and> is_list_or_tuple r then
        except_ValueError
          (case elements r of
             m # p # opts \<Rightarrow>
               (let d = (if length opts > 0 then opts ! 0 else PNone);
                    h = (if length opts > 1 then opts ! 1 else PNone);
                    s = (if length opts > 2 then opts ! 2 else PInt 200)
                in Route_init pf m p d h s)
           | _ \<Rightarrow> Inl (ValueError ''not enough values to unpack''))
      else Inl (TypeError ''Route should be list or tuple''))"


section \<open>stub.py\<close>

text \<open>
  The sockets are the other parameter: what the \<open>n\<close>-th construction of an
  \<open>HTTPServer\<close> and the \<open>n\<close>-th \<open>wrap_socket\<close> do, counting from 0. Either returns,
  or raises an \<open>OSError\<close> with its \<open>errno\<close> and message.
\<close>

datatype os_outcome = Returns | Raises "int option" string

record sockets =
  http_server :: "nat \<Rightarrow> os_outcome"
  wrap_socket :: "nat \<Rightarrow> os_outcome"

text \<open>The value of \<open>errno.EADDRINUSE\<close> on Linux.\<close>

definition EADDRINUSE :: int where
  "EADDRINUSE = 98"

text \<open>What a run does to the outside, in order.\<close>

datatype event =
    Bind "string \<times> int"
  | Wrap
  | Sleep rat
  | Serve

record server =
  address :: "string \<times> int"
  wrapped :: bool

record service =
  routes :: "route list"
  server :: "server option"
  port :: int
  trace :: bool
  delay :: pyfloat
  crt :: pyval
  key :: pyval
  secure :: pyval

text \<open>\<open>float(x)\<close>, with the exception it raises.\<close>

fun py_float :: "platform \<Rightarrow> pyval \<Rightarrow> error + pyfloat" where
  "py_float pf (PInt i) =
     (case float_of_int pf i of
        Some f \<Rightarrow> Inr f
      | None \<Rightarrow> Inl (OverflowError ''int too large to convert to float''))"
| "py_float pf (PBool b) = Inr (Finite (if b then 1 else 0))"
| "py_float pf (PFloat r) = Inr (Finite r)"
| "py_float pf (PStr s) =
     (case float_of_str pf s of
        Some f \<Rightarrow> Inr f
      | None \<Rightarrow> Inl (ValueError ''could not convert string to float''))"
| "py_float pf (PBytes b) =
     (case float_of_bytes pf b of
        Some f \<Rightarrow> Inr f
      | None \<Rightarrow> Inl (ValueError ''could not convert string to float''))"
| "py_float pf v = Inl (TypeError ''float() argument must be a string or a real number'')"

subsection \<open>Construction\<close>

text \<open>The list comprehension \<open>[Route.cast(route) for route in routes]\<close>.\<close>

fun cast_all :: "platform \<Rightarrow> pyval list \<Rightarrow> error + route list" where
  "cast_all pf [] = Inr []"
| "cast_all pf (r # rs) =
     (case cast pf r of
        Inl e \<Rightarrow> Inl e
      | Inr x \<Rightarrow> (case cast_all pf rs of Inl e \<Rightarrow> Inl e | Inr xs \<Rightarrow> Inr (x # xs)))"

definition init_routes :: "platform \<Rightarrow> pyval \<Rightarrow> error + route list" where
  "init_routes pf rs =
     (if truthy rs then
        (if \<not> is_list_or_tuple rs then Inl (TypeError ''Routes should be list or tuple'')
         else if list_all is_list_or_tuple (elements rs) then cast_all pf (elements rs)
         else (case cast pf rs of Inl e \<Rightarrow> Inl e | Inr x \<Rightarrow> Inr [x]))
      else Inr [])"

definition set_port :: "platform \<Rightarrow> pyval \<Rightarrow> error + int" where
  "set_port pf p =
     (case py_int pf p of Some i \<Rightarrow> Inr i | None \<Rightarrow> Inl (TypeError ''port should be int''))"

definition set_trace :: "pyval \<Rightarrow> bool" where
  "set_trace t = truthy t"

definition set_delay :: "platform \<Rightarrow> pyval \<Rightarrow> error + pyfloat" where
  "set_delay pf d =
     (case py_float pf d of
        Inr f \<Rightarrow> Inr f
      | Inl (TypeError msg) \<Rightarrow> Inl (TypeError ''delay should be int or float'')
      | Inl (ValueError msg) \<Rightarrow> Inl (TypeError ''delay should be int or float'')
      | Inl e \<Rightarrow> Inl e)"

text \<open>
  \<open>Path(x)\<close> raises \<open>TypeError\<close> unless \<open>x\<close> is a text. The setters catch \<open>TypeError\<close>
  and nothing else, so any other exception of \<open>exists()\<close> leaves them.
\<close>

definition set_crt :: "platform \<Rightarrow> pyval \<Rightarrow> error + pyval" where
  "set_crt pf c =
     (case c of
        PStr s \<Rightarrow>
          (case path_exists pf s of
             Inr found \<Rightarrow> Inr (if found then PStr s else PBool False)
           | Inl (TypeError msg) \<Rightarrow> Inl (TypeError ''crt should be str'')
           | Inl e \<Rightarrow> Inl e)
      | _ \<Rightarrow> Inl (TypeError ''crt should be str''))"

definition set_key :: "platform \<Rightarrow> pyval \<Rightarrow> error + pyval" where
  "set_key pf k =
     (case k of
        PStr s \<Rightarrow>
          (case path_exists pf s of
             Inr found \<Rightarrow> Inr (if found then PStr s else PBool False)
           | Inl (TypeError msg) \<Rightarrow> Inl (TypeError ''key should be str'')
           | Inl e \<Rightarrow> Inl e)
      | _ \<Rightarrow> Inl (TypeError ''key should be str''))"

text \<open>\<open>__set_secure\<close> reads the certificate and the key the two setters stored.\<close>

definition set_secure :: "pyval \<Rightarrow> pyval \<Rightarrow> pyval \<Rightarrow> error + pyval" where
  "set_secure c k sec =
     (if truthy sec then
        (if \<not> truthy c then Inl (ValueError ''crt not exists but ssl is enabled'')
         else if \<not> truthy k then Inl (ValueError ''key not exists but ssl is enabled'')
         else Inr sec)
      else Inr sec)"

text \<open>
  \<open>Service.__init__(routes, port, trace=, delay=, crt=, key=, secure=)\<close>: every
  argument is passed; the defaults of the source are \<open>None\<close>, \<open>8081\<close>, \<open>False\<close>, \<open>0\<close>,
  \<open>''\<close>, \<open>''\<close> and \<open>False\<close>.
\<close>

definition Service_init ::
  "platform \<Rightarrow> pyval \<Rightarrow> pyval \<Rightarrow> pyval \<Rightarrow> pyval \<Rightarrow> pyval \<Rightarrow> pyval \<Rightarrow> pyval \<Rightarrow> error + service"
  where
  "Service_init pf rs p t d c k sec =
     (case init_routes pf rs of Inl e \<Rightarrow> Inl e | Inr rs' \<Rightarrow>
     (case set_port pf p of Inl e \<Rightarrow> Inl e | Inr p' \<Rightarrow>
     (case set_delay pf d of Inl e \<Rightarrow> Inl e | Inr d' \<Rightarrow>
     (case set_crt pf c of Inl e \<Rightarrow> Inl e | Inr c' \<Rightarrow>
     (case set_key pf k of Inl e \<Rightarrow> Inl e | Inr k' \<Rightarrow>
     (case set_secure c' k' sec of Inl e \<Rightarrow> Inl e | Inr sec' \<Rightarrow>
        Inr \<lparr>routes = rs', server = None, port = p', trace = set_trace t, delay = d',
             crt = c', key = k', secure = sec'\<rparr>))))))"

subsection \<open>The builders and the resolver\<close>

definition append_route :: "service \<Rightarrow> error + route \<Rightarrow> error + service" where
  "append_route s r =
     (case r of Inl e \<Rightarrow> Inl e | Inr x \<Rightarrow> Inr (s\<lparr>routes := routes s @ [x]\<rparr>))"

definition get :: "platform \<Rightarrow> service \<Rightarrow> pyval \<Rightarrow> pyval \<Rightarrow> pyval \<Rightarrow> pyval \<Rightarrow> error + service" where
  "get pf s p d h st = append_route s (Route_init pf (PStr (ALLOWED ! 0)) p d h st)"

definition post :: "platform \<Rightarrow> service \<Rightarrow> pyval \<Rightarrow> pyval \<Rightarrow> pyval \<Rightarrow> pyval \<Rightarrow> error + service" where
  "post pf s p d h st = append_route s (Route_init pf (PStr (ALLOWED ! 1)) p d h st)"

definition put :: "platform \<Rightarrow> service \<Rightarrow> pyval \<Rightarrow> pyval \<Rightarrow> pyval \<Rightarrow> error + service" where
  "put pf s p h st = append_route s (Route_init pf (PStr (ALLOWED ! 2)) p PNone h st)"

definition delete :: "platform \<Rightarrow> service \<Rightarrow> pyval \<Rightarrow> pyval \<Rightarrow> pyval \<Rightarrow> pyval \<Rightarrow> error + service" where
  "delete pf s p d h st = append_route s (Route_init pf (PStr (ALLOWED ! 3)) p d h st)"

text \<open>
  \<open>re.match(pattern, path, re.U)\<close> on the stored path of a route: a text pattern is
  matched; a bytes pattern raises \<open>ValueError\<close>, the flag \<open>re.U\<close> being refused with it.
\<close>

definition match_path :: "platform \<Rightarrow> pyval \<Rightarrow> string \<Rightarrow> error + bool" where
  "match_path pf pat p =
     (case pat of
        PStr s \<Rightarrow> re_match pf s p
      | PBytes b \<Rightarrow> Inl (ValueError ''cannot use UNICODE flag with a bytes pattern'')
      | _ \<Rightarrow> Inl (TypeError ''first argument must be string or compiled pattern''))"



text \<open>For a request \<open>(m, p)\<close>: the route answers it, or the loop passes it by.\<close>

definition hit :: "platform \<Rightarrow> string \<Rightarrow> string \<Rightarrow> route \<Rightarrow> bool" where
  "hit pf m p r = (meth r = m \<and> match_path pf (path r) p = Inr True)"

definition miss :: "platform \<Rightarrow> string \<Rightarrow> string \<Rightarrow> route \<Rightarrow> bool" where
  "miss pf m p r = (meth r \<noteq> m \<or> match_path pf (path r) p = Inr False)"

subsection \<open>Starting\<close>

text \<open>
  One pass through the body of the \<open>try\<close> in \<open>_create\<close>: the server it returns, or the
  \<open>OSError\<close> raised, with what was done.
\<close>

definition socket :: "service \<Rightarrow> string \<times> int" where
  "socket s = (''localhost'', port s)"

definition attempt :: "sockets \<Rightarrow> service \<Rightarrow> nat \<Rightarrow> ((int option \<times> string) + server) \<times> event list" where
  "attempt io s n =
     (if truthy (secure s) then
        (case http_server io n of
           Raises no msg \<Rightarrow> (Inl (no, msg), [Bind (socket s)])
         | Returns \<Rightarrow>
             (case wrap_socket io n of
                Raises no msg \<Rightarrow> (Inl (no, msg), [Bind (socket s), Wrap])
              | Returns \<Rightarrow>
                  (Inr \<lparr>address = socket s, wrapped = True\<rparr>, [Bind (socket s), Wrap])))
      else
        (case http_server io n of
           Raises no msg \<Rightarrow> (Inl (no, msg), [Bind (socket s)])
         | Returns \<Rightarrow> (Inr \<lparr>address = socket s, wrapped = False\<rparr>, [Bind (socket s)])))"

text \<open>
  The \<open>while\<close> loop of \<open>_create\<close>: \<open>attempts\<close> is the variable of the source, \<open>n\<close> counts
  the passes made and \<open>tr\<close> collects the events.
\<close>

function create_loop ::
  "sockets \<Rightarrow> service \<Rightarrow> int \<Rightarrow> nat \<Rightarrow> event list \<Rightarrow> (error + server) \<times> event list" where
  "create_loop io s attempts n tr =
     (if attempts \<ge> 0 then
        (case attempt io s n of
           (Inr srv, evs) \<Rightarrow> (Inr srv, tr @ evs)
         | (Inl (no, msg), evs) \<Rightarrow>
             if no = Some EADDRINUSE
             then create_loop io s (attempts - 1) (Suc n) (tr @ evs @ [Sleep (1 / 2)])
             else (Inl (OSError no msg), tr @ evs))
      else (Inl (OSError None ''Port is already busy or operation not permitted''), tr))"
  by pat_completeness auto
termination
  by (relation "measure (\<lambda>(io, s, attempts, n, tr). nat (attempts + 1))") auto

definition create :: "sockets \<Rightarrow> service \<Rightarrow> int \<Rightarrow> (error + server) \<times> event list" where
  "create io s attempts = create_loop io s attempts 0 []"

definition start :: "sockets \<Rightarrow> service \<Rightarrow> (error + service) \<times> event list" where
  "start io s =
     (if routes s \<noteq> [] then
        (case create io s 3 of
           (Inl e, tr) \<Rightarrow> (Inl e, tr)
         | (Inr srv, tr) \<Rightarrow> (Inr (s\<lparr>server := Some srv\<rparr>), tr @ [Serve]))
      else (Inl (ValueError ''Routes not defined''), []))"


section \<open>A platform for the examples\<close>

text \<open>
  A matcher in the place of \<open>re.match\<close>, for the patterns made of literal characters
  other than the metacharacters, the dot, a star after either, and a final dollar.
  It matches from the start of the text and need not reach its end; the dot matches
  any character but a newline, and the dollar matches at the end of the text or
  before a newline that ends it.
\<close>

fun match_here :: "string \<Rightarrow> string \<Rightarrow> bool"
  and match_star :: "char \<Rightarrow> string \<Rightarrow> string \<Rightarrow> bool" where
  "match_here [] text = True"
| "match_here [c] text =
     (if c = CHR ''$'' then text = [] \<or> text = [CHR 0x0A]
      else text \<noteq> [] \<and> (hd text = c \<or> (c = CHR ''.'' \<and> hd text \<noteq> CHR 0x0A)))"
| "match_here (c # d # re) text =
     (if d = CHR ''*'' then match_star c re text
      else text \<noteq> [] \<and> (hd text = c \<or> (c = CHR ''.'' \<and> hd text \<noteq> CHR 0x0A))
           \<and> match_here (d # re) (tl text))"
| "match_star c re [] = match_here re []"
| "match_star c re (t # text) =
     (match_here re (t # text)
      \<or> ((t = c \<or> (c = CHR ''.'' \<and> t \<noteq> CHR 0x0A)) \<and> match_star c re text))"

text \<open>
  A platform with two files, a key and a certificate; the empty path exists, being
  the current directory, and a file name of more than 255 characters is too long.
  Its JSON, XML, number and pattern functions are tables: they hold the answers of
  the library on the values the examples use. Bytes are not JSON, and the pattern
  \<open>(\<close> does not compile.
\<close>

definition sample_files :: "(string \<times> bytes) list" where
  "sample_files =
     [(''/srv/www/logo.png'', [0x89, 0x50, 0x4E, 0x47]),
      (''/srv/www/README'', [0x68, 0x69])]"

definition sample_platform :: platform where
  "sample_platform =
     \<lparr>read_file =
        (\<lambda>p. case map_of sample_files p of
                Some b \<Rightarrow> Inr b
              | None \<Rightarrow> Inl (OSError (Some 2) ''No such file or directory'')),
      path_exists =
        (\<lambda>p. if 255 < length (path_name p) then Inl (OSError (Some 36) ''File name too long'')
              else Inr (p \<in> set (map fst sample_files
                          @ [[], ''/etc/ssl/restub.key'', ''/etc/ssl/restub.crt'']))),
      json_dumps =
        (\<lambda>v. if v = PDict [] then Inr ''{}''
              else if v = PDict [(''n'', PInt 1)]
              then Inr (''{'' @ [CHR 0x22] @ ''n'' @ [CHR 0x22] @ '': 1}'')
              else if v = PDict [(''k'', PBytes [0x78])]
              then Inl (TypeError ''Object of type bytes is not JSON serializable'')
              else Inr ''null''),
      json_loads =
        (\<lambda>s. if s \<in> set [''{}'', ''[]'', ''null'', ''1''] then None
              else Some (ValueError ''Expecting value'')),
      parseString =
        (\<lambda>s. if s \<in> set [''<a/>'', ''<html><a>1</a></html>''] then None
              else Some (ExpatError ''syntax error'')),
      int_of_str = map_of [(''200'', 200), (''404'', 404)],
      int_of_bytes = (\<lambda>b. None),
      float_of_str = map_of [(''0.5'', Finite (1 / 2))],
      float_of_bytes = (\<lambda>b. None),
      float_of_int = (\<lambda>i. Some (Finite (of_int i))),
      repr_bytes =
        (\<lambda>b. ''b'' @ [CHR 0x27] @ map (\<lambda>w. char_of (unat w)) b @ [CHR 0x27]),
      re_match =
        (\<lambda>p s. if p = ''(''
                then Inl (RegexError ''missing ), unterminated subpattern at position 0'')
                else Inr (match_here p s))\<rparr>"

text \<open>
  The service of the two routes \<open>('GET', '/a/$')\<close> and \<open>('GET', '/a/.*')\<close>, in that
  order, as \<open>Service(routes=[...])\<close> builds it with its defaults, and its two routes.
\<close>

definition ab_literal :: pyval where
  "ab_literal =
     PList [PTuple [PStr ''GET'', PStr ''/a/$''], PTuple [PStr ''GET'', PStr ''/a/.*'']]"

definition route_a_end :: route where
  "route_a_end = \<lparr>meth = ''GET'', path = PStr ''/a/$'', data = None, headers = [], status = 200\<rparr>"

definition route_a_any :: route where
  "route_a_any = \<lparr>meth = ''GET'', path = PStr ''/a/.*'', data = None, headers = [], status = 200\<rparr>"

definition ab_service :: service where
  "ab_service =
     \<lparr>routes = [route_a_end, route_a_any], server = None, port = 8081, trace = False,
      delay = Finite 0, crt = PStr [], key = PStr [], secure = PBool False\<rparr>"

subsection \<open>Reading a run of \<open>_create\<close>\<close>





text \<open>Sockets on which the port is held during the first two passes and free then.\<close>

definition slow_release :: sockets where
  "slow_release =
     \<lparr>http_server = (\<lambda>n. if n < 2 then Raises (Some 98) ''Address already in use'' else Returns),
      wrap_socket = (\<lambda>n. Returns)\<rparr>"

section \<open>Verified properties\<close>

subsection \<open>Reading the sample platform\<close>


subsection \<open>Content negotiation\<close>




subsection \<open>Route resolution\<close>

lemma hit_not_miss: "hit pf m p r \<Longrightarrow> \<not> miss pf m p r"
  by (simp add: hit_def miss_def)









subsection \<open>Headers of a route\<close>

lemma dict_get_set:
  "dict_get (dict_set d k v) k' = (if norm_key k = norm_key k' then Some v else dict_get d k')"
  by (induction d) auto

lemma dict_get_fold_set:
  "dict_get (fold (\<lambda>(k, v) d'. dict_set d' (PStr k) v) kvs d) (PStr k') =
     (case map_of (rev kvs) k' of Some v \<Rightarrow> Some v | None \<Rightarrow> dict_get d (PStr k'))"
proof (induction kvs arbitrary: d)
  case Nil
  show ?case by simp
next
  case (Cons x kvs)
  obtain k v where x: "x = (k, v)" by (cases x)
  show ?case
    by (simp add: x Cons.IH dict_get_set map_add_def split: option.splits)
qed

lemma init_data_truthy:
  assumes "truthy d" and "init_data pf d = Inr (b, own)"
  shows "\<exists>body ctype. parse_response pf d = Inr (body, ctype) \<and> b = Some body
           \<and> own = [(PStr ''Content-type'', PStr ctype),
                    (PStr ''Content-length'', PInt (int (length body)))]"
  using assms by (auto simp: init_data_def split: sum.splits)

lemma Route_init_Inr:
  assumes "Route_init pf m p d h st = Inr r"
  shows "\<exists>own. init_data pf d = Inr (data r, own) \<and> init_headers own h = Inr (headers r)"
  using assms by (auto simp: Route_init_def split: sum.splits prod.splits)

lemma headers_gain_nonempty_payload:
  assumes "truthy d" and "Route_init pf m p d h st = Inr r"
  shows "\<exists>body ctype.
           parse_response pf d = Inr (body, ctype)
           \<and> data r = Some body
           \<and> init_headers [(PStr ''Content-type'', PStr ctype),
                            (PStr ''Content-length'', PInt (int (length body)))] h
               = Inr (headers r)
           \<and> (\<not> truthy h \<longrightarrow>
                headers r = [(PStr ''Content-type'', PStr ctype),
                             (PStr ''Content-length'', PInt (int (length body)))])
           \<and> (\<forall>kvs k. h = PDict kvs \<longrightarrow>
                dict_get (headers r) (PStr k) =
                  (case map_of (rev kvs) k of
                     Some v \<Rightarrow> Some v
                   | None \<Rightarrow>
                       if k = ''Content-type'' then Some (PStr ctype)
                       else if k = ''Content-length'' then Some (PInt (int (length body)))
                       else None))"
proof -
  from assms(2) obtain own where own: "init_data pf d = Inr (data r, own)"
    and hs: "init_headers own h = Inr (headers r)"
    using Route_init_Inr by blast
  from init_data_truthy [OF assms(1) own] obtain body ctype where
    pr: "parse_response pf d = Inr (body, ctype)" and b: "data r = Some body"
    and o: "own = [(PStr ''Content-type'', PStr ctype),
                    (PStr ''Content-length'', PInt (int (length body)))]"
    by blast
  have falsy: "headers r = own" if "\<not> truthy h"
    using hs that by (simp add: init_headers_def)
  have merged: "dict_get (headers r) (PStr k) =
                  (case map_of (rev kvs) k of
                     Some v \<Rightarrow> Some v
                   | None \<Rightarrow>
                       if k = ''Content-type'' then Some (PStr ctype)
                       else if k = ''Content-length'' then Some (PInt (int (length body)))
                       else None)" if "h = PDict kvs" for kvs k
  proof (cases "kvs = []")
    case True
    with that hs have "headers r = own" by (simp add: init_headers_def)
    then show ?thesis using True o by simp
  next
    case False
    with that hs have "headers r = fold (\<lambda>(k, v) d'. dict_set d' (PStr k) v) kvs own"
      by (simp add: init_headers_def)
    then show ?thesis
      using o by (simp add: dict_get_fold_set split: option.splits)
  qed
  show ?thesis
    using pr b hs o falsy merged by blast
qed

lemma falsy_payload_gets_no_headers:
  assumes "\<not> truthy d" and "Route_init pf m p d h st = Inr r"
  shows "data r = None \<and> init_headers [] h = Inr (headers r)
         \<and> (\<not> truthy h \<longrightarrow> headers r = [])
         \<and> (\<forall>kvs k. h = PDict kvs \<longrightarrow> dict_get (headers r) (PStr k) = map_of (rev kvs) k)"
proof -
  from assms(2) obtain own where own: "init_data pf d = Inr (data r, own)"
    and hs: "init_headers own h = Inr (headers r)"
    using Route_init_Inr by blast
  from own assms(1) have b: "data r = None" and o: "own = []"
    by (simp_all add: init_data_def)
  have e: "headers r = []" if "\<not> truthy h"
    using hs o that by (simp add: init_headers_def)
  have g: "dict_get (headers r) (PStr k) = map_of (rev kvs) k" if "h = PDict kvs" for kvs k
  proof (cases "kvs = []")
    case True
    with that hs o show ?thesis by (simp add: init_headers_def)
  next
    case False
    with that hs o have "headers r = fold (\<lambda>(k, v) d'. dict_set d' (PStr k) v) kvs []"
      by (simp add: init_headers_def)
    then show ?thesis
      by (simp add: dict_get_fold_set split: option.splits)
  qed
  show ?thesis
    using b hs o e g by blast
qed

text \<open>
  C3: the claim is that every route constructed with a supplied payload gains
  \<open>Content-type\<close>, from the negotiation, and \<open>Content-length\<close>, the number of bytes of
  the body, before the headers of the caller are merged. The constructor does so for
  a payload that is true as a condition (\<open>headers_gain_nonempty_payload\<close>), and the
  docstring of the module says so of the data passed. At an empty mapping or an empty
  text it does not: its test is \<open>if data:\<close>, so the route has no body and no header of
  its own (\<open>falsy_payload_gets_no_headers\<close>), although \<open>parse_response\<close> on the empty
  mapping gives the two bytes of its JSON text with the content type
  \<open>application/json\<close>.
\<close>

theorem empty_payload_gets_no_headers:
  "parse_response sample_platform (PDict []) = Inr (encode ''{}'', ''application/json'')
   \<and> Route_init sample_platform (PStr ''GET'') (PStr ''/$'') (PDict []) PNone (PInt 200)
     = Inr \<lparr>meth = ''GET'', path = PStr ''/$'', data = None, headers = [], status = 200\<rparr>
   \<and> Route_init sample_platform (PStr ''GET'') (PStr ''/$'') (PStr []) PNone (PInt 200)
     = Inr \<lparr>meth = ''GET'', path = PStr ''/$'', data = None, headers = [], status = 200\<rparr>
   \<and> Route_init sample_platform (PStr ''GET'') (PStr ''/$'') (PStr ''plain text'')
         (PDict [(''Content-type'', PStr ''text/html'')]) (PInt 200)
     = Inr \<lparr>meth = ''GET'', path = PStr ''/$'', data = Some (encode ''plain text''),
            headers = [(PStr ''Content-type'', PStr ''text/html''),
                       (PStr ''Content-length'', PInt 10)],
            status = 200\<rparr>"
  by code_simp

subsection \<open>Binding the socket\<close>
















subsection \<open>The method of a route\<close>

lemma upper_GET: "upper ''GET'' = ''GET''"
  by code_simp

lemma GET_allowed: "''GET'' \<in> set ALLOWED"
  by (simp add: ALLOWED_def)

text \<open>
  C5, as amended: a method that is a text whose upper-case form is one of \<open>GET\<close>,
  \<open>POST\<close>, \<open>PUT\<close>, \<open>DELETE\<close> is accepted, whatever its letter case: the constructor does
  with it what it does with \<open>GET\<close>, and the route it builds stores the upper-case form.
  Any other text raises \<open>ValueError\<close>, and a method that is not a text and has no
  \<open>upper\<close> method (\<open>None\<close>, a boolean, a number, a list, a tuple, a dictionary) raises
  \<open>TypeError\<close>. The claim as stated, a type error for every method that is not a text,
  fails on bytes: they have an \<open>upper\<close> method, the handler of the constructor turns
  only the \<open>AttributeError\<close> into \<open>TypeError\<close>, and the constructor raises the
  \<open>ValueError\<close> of a method that is not allowed.
\<close>

theorem method_validation:
  "(upper s \<in> set ALLOWED \<longrightarrow>
      Route_init pf (PStr s) p d h st
        = map_sum id (\<lambda>r. r\<lparr>meth := upper s\<rparr>) (Route_init pf (PStr ''GET'') p d h st))
   \<and> (Route_init pf (PStr s) p d h st = Inr r \<longrightarrow> meth r = upper s \<and> meth r \<in> set ALLOWED)
   \<and> (upper s \<notin> set ALLOWED \<longrightarrow>
      Route_init pf (PStr s) p d h st
        = Inl (ValueError (''Method '' @ [CHR 0x22] @ s @ [CHR 0x22] @ '' is not allowed'')))
   \<and> ((\<forall>s. m \<noteq> PStr s) \<and> (\<forall>b. m \<noteq> PBytes b) \<longrightarrow>
      Route_init pf m p d h st = Inl (TypeError ''Method name should be str''))
   \<and> Route_init pf (PBytes b) p d h st
       = Inl (ValueError (''Method '' @ [CHR 0x22] @ repr_bytes pf b @ [CHR 0x22]
                          @ '' is not allowed''))"
proof -
  have accepted: "Route_init pf (PStr s) p d h st
        = map_sum id (\<lambda>r. r\<lparr>meth := upper s\<rparr>) (Route_init pf (PStr ''GET'') p d h st)"
    if "upper s \<in> set ALLOWED"
    using that GET_allowed
    by (simp add: Route_init_def init_method_def upper_GET split: sum.splits prod.splits)
  have stored: "meth r = upper s \<and> meth r \<in> set ALLOWED"
    if "Route_init pf (PStr s) p d h st = Inr r"
    using that
    by (auto simp: Route_init_def init_method_def split: sum.splits prod.splits if_splits)
  have refused: "Route_init pf (PStr s) p d h st
        = Inl (ValueError (''Method '' @ [CHR 0x22] @ s @ [CHR 0x22] @ '' is not allowed''))"
    if "upper s \<notin> set ALLOWED"
    using that by (simp add: Route_init_def init_method_def)
  have not_text: "Route_init pf m p d h st = Inl (TypeError ''Method name should be str'')"
    if "\<forall>s. m \<noteq> PStr s" "\<forall>b. m \<noteq> PBytes b"
    using that by (cases m) (simp_all add: Route_init_def init_method_def)
  have bytes: "Route_init pf (PBytes b) p d h st
       = Inl (ValueError (''Method '' @ [CHR 0x22] @ repr_bytes pf b @ [CHR 0x22]
                          @ '' is not allowed''))"
    by (simp add: Route_init_def init_method_def)
  show ?thesis
    using accepted stored refused not_text bytes by blast
qed

theorem method_validation_witness:
  "upper ''GeT'' \<in> set ALLOWED
   \<and> Route_init sample_platform (PStr ''GeT'') (PStr ''/$'') PNone PNone (PInt 200)
       = Inr \<lparr>meth = ''GET'', path = PStr ''/$'', data = None, headers = [], status = 200\<rparr>
   \<and> upper ''patch'' \<notin> set ALLOWED
   \<and> Route_init sample_platform (PStr ''patch'') (PStr ''/$'') PNone PNone (PInt 200)
       = Inl (ValueError (''Method '' @ [CHR 0x22] @ ''patch'' @ [CHR 0x22] @ '' is not allowed''))
   \<and> Route_init sample_platform PNone (PStr ''/$'') PNone PNone (PInt 200)
       = Inl (TypeError ''Method name should be str'')"
proof -
  note t = method_validation [where pf = sample_platform and p = "PStr ''/$''" and d = PNone
      and h = PNone and st = "PInt 200"]
  have a: "upper ''GeT'' \<in> set ALLOWED" by code_simp
  have g: "Route_init sample_platform (PStr ''GET'') (PStr ''/$'') PNone PNone (PInt 200)
       = Inr \<lparr>meth = ''GET'', path = PStr ''/$'', data = None, headers = [], status = 200\<rparr>"
    by code_simp
  have u: "upper ''GeT'' = ''GET''" by code_simp
  have b: "upper ''patch'' \<notin> set ALLOWED" by code_simp
  have c: "(\<forall>s. PNone \<noteq> PStr s) \<and> (\<forall>b. PNone \<noteq> PBytes b)" by simp
  have 1: "Route_init sample_platform (PStr ''GeT'') (PStr ''/$'') PNone PNone (PInt 200)
       = Inr \<lparr>meth = ''GET'', path = PStr ''/$'', data = None, headers = [], status = 200\<rparr>"
    using t [where s = "''GeT''", THEN conjunct1] a by (simp add: g u)
  have 2: "Route_init sample_platform (PStr ''patch'') (PStr ''/$'') PNone PNone (PInt 200)
       = Inl (ValueError (''Method '' @ [CHR 0x22] @ ''patch'' @ [CHR 0x22] @ '' is not allowed''))"
    using t [where s = "''patch''", THEN conjunct2, THEN conjunct2, THEN conjunct1] b by blast
  have 3: "Route_init sample_platform PNone (PStr ''/$'') PNone PNone (PInt 200)
       = Inl (TypeError ''Method name should be str'')"
    using t [where m = PNone, THEN conjunct2, THEN conjunct2, THEN conjunct2, THEN conjunct1] c
    by blast
  show ?thesis
    using a b 1 2 3 by blast
qed

theorem method_validation_counterexample:
  "Route_init sample_platform (PBytes [0x47, 0x45, 0x54]) (PStr ''/$'') PNone PNone (PInt 200)
     = Inl (ValueError (''Method '' @ [CHR 0x22] @ ''b'' @ [CHR 0x27] @ ''GET'' @ [CHR 0x27]
                        @ [CHR 0x22] @ '' is not allowed''))"
  by code_simp

subsection \<open>Construction from a sequence\<close>

lemma cast_elements:
  assumes "is_list_or_tuple r" and "elements r = m # p # opts"
  shows "cast pf r =
           except_ValueError
             (Route_init pf m p (if 0 < length opts then opts ! 0 else PNone)
                (if 1 < length opts then opts ! 1 else PNone)
                (if 2 < length opts then opts ! 2 else PInt 200))"
  using assms by (cases r) (simp_all add: cast_def)

text \<open>
  C6, as amended: \<open>Route.cast\<close> fails with \<open>TypeError\<close> on every argument that is not a
  list or a tuple and on the empty list and the empty tuple; it fails with
  \<open>ValueError\<close> on a list or tuple of one element; and it forwards a list or tuple
  \<open>(method, path[, payload[, headers[, status]]])\<close> of two to five elements to the
  constructor, with \<open>None\<close>, \<open>None\<close> and \<open>200\<close> for what is left out, returning the
  route or the \<open>TypeError\<close> of the constructor and raising its own \<open>ValueError\<close> in the
  place of a \<open>ValueError\<close> of the constructor. The claim as stated, a value error for
  every sequence of fewer than two elements, fails on the empty sequence: the guard
  \<open>if route and isinstance(route, (list, tuple))\<close> sends it to the \<open>TypeError\<close>.
\<close>

theorem cast_shape:
  "(\<not> is_list_or_tuple r \<or> elements r = [] \<longrightarrow>
      cast pf r = Inl (TypeError ''Route should be list or tuple''))
   \<and> (is_list_or_tuple r \<and> elements r = [m] \<longrightarrow>
      cast pf r = Inl (ValueError ''Route should contain method and path''))
   \<and> (is_list_or_tuple r \<and> elements r = [m, p] \<longrightarrow>
      cast pf r = except_ValueError (Route_init pf m p PNone PNone (PInt 200)))
   \<and> (is_list_or_tuple r \<and> elements r = [m, p, d] \<longrightarrow>
      cast pf r = except_ValueError (Route_init pf m p d PNone (PInt 200)))
   \<and> (is_list_or_tuple r \<and> elements r = [m, p, d, h] \<longrightarrow>
      cast pf r = except_ValueError (Route_init pf m p d h (PInt 200)))
   \<and> (is_list_or_tuple r \<and> elements r = [m, p, d, h, st] \<longrightarrow>
      cast pf r = except_ValueError (Route_init pf m p d h st))
   \<and> (Route_init pf m p d h st = Inr x \<longrightarrow>
      except_ValueError (Route_init pf m p d h st) = Inr x)
   \<and> (Route_init pf m p d h st = Inl (TypeError msg) \<longrightarrow>
      except_ValueError (Route_init pf m p d h st) = Inl (TypeError msg))
   \<and> (Route_init pf m p d h st = Inl (ValueError msg) \<longrightarrow>
      except_ValueError (Route_init pf m p d h st)
        = Inl (ValueError ''Route should contain method and path''))"
proof -
  have shape: "cast pf r = Inl (TypeError ''Route should be list or tuple'')"
    if "\<not> is_list_or_tuple r \<or> elements r = []"
    using that by (cases r) (auto simp: cast_def)
  have one: "cast pf r = Inl (ValueError ''Route should contain method and path'')"
    if "is_list_or_tuple r" "elements r = [m]"
    using that by (cases r) (simp_all add: cast_def except_ValueError_def)
  show ?thesis
    using shape one
    by (auto simp: cast_elements except_ValueError_def)
qed

theorem cast_shape_witness:
  "cast sample_platform (PTuple [PStr ''GET''])
     = Inl (ValueError ''Route should contain method and path'')
   \<and> cast sample_platform (PInt 5) = Inl (TypeError ''Route should be list or tuple'')
   \<and> cast sample_platform (PList [PStr ''post'', PStr ''/items/$'', PStr ''{}'', PNone, PInt 201])
     = Inr \<lparr>meth = ''POST'', path = PStr ''/items/$'', data = Some (encode ''{}''),
            headers = [(PStr ''Content-type'', PStr ''application/json''),
                       (PStr ''Content-length'', PInt 2)],
            status = 201\<rparr>"
proof -
  have e1: "is_list_or_tuple (PTuple [PStr ''GET'']) \<and> elements (PTuple [PStr ''GET'']) = [PStr ''GET'']"
    by simp
  have e2: "\<not> is_list_or_tuple (PInt 5) \<or> elements (PInt 5) = []"
    by simp
  let ?l = "PList [PStr ''post'', PStr ''/items/$'', PStr ''{}'', PNone, PInt 201]"
  have e3: "is_list_or_tuple ?l \<and> elements ?l = [PStr ''post'', PStr ''/items/$'', PStr ''{}'', PNone, PInt 201]"
    by simp
  have i: "Route_init sample_platform (PStr ''post'') (PStr ''/items/$'') (PStr ''{}'') PNone (PInt 201)
     = Inr \<lparr>meth = ''POST'', path = PStr ''/items/$'', data = Some (encode ''{}''),
            headers = [(PStr ''Content-type'', PStr ''application/json''),
                       (PStr ''Content-length'', PInt 2)],
            status = 201\<rparr>"
    by code_simp
  have 1: "cast sample_platform (PTuple [PStr ''GET''])
     = Inl (ValueError ''Route should contain method and path'')"
    using cast_shape [where r = "PTuple [PStr ''GET'']" and m = "PStr ''GET''"] e1 by blast
  have 2: "cast sample_platform (PInt 5) = Inl (TypeError ''Route should be list or tuple'')"
    using cast_shape [where r = "PInt 5"] e2 by blast
  have 3: "cast sample_platform ?l
     = except_ValueError (Route_init sample_platform (PStr ''post'') (PStr ''/items/$'') (PStr ''{}'') PNone (PInt 201))"
    using cast_shape [where r = ?l and m = "PStr ''post''" and p = "PStr ''/items/$''"
        and d = "PStr ''{}''" and h = PNone and st = "PInt 201"] e3 by blast
  show ?thesis
    using 1 2 3 i by (simp add: except_ValueError_def)
qed

theorem cast_shape_counterexample:
  "is_list_or_tuple (PList []) \<and> length (elements (PList [])) < 2
   \<and> cast sample_platform (PList []) = Inl (TypeError ''Route should be list or tuple'')
   \<and> cast sample_platform (PTuple []) = Inl (TypeError ''Route should be list or tuple'')"
  by code_simp

text \<open>
  C10: on a list or tuple of more than five elements \<open>Route.cast\<close> does what it does on
  the first five: it passes them to the constructor and never reads the others, so
  when the first five make a valid route the result is that route.
\<close>

theorem cast_ignores_extra:
  "(5 < length xs \<longrightarrow>
      cast pf (PList xs) = cast pf (PList (take 5 xs))
      \<and> cast pf (PTuple xs) = cast pf (PTuple (take 5 xs)))
   \<and> cast pf (PList (m # p # d # h # st # extra))
       = except_ValueError (Route_init pf m p d h st)
   \<and> cast pf (PTuple (m # p # d # h # st # extra))
       = except_ValueError (Route_init pf m p d h st)
   \<and> (Route_init pf m p d h st = Inr x \<longrightarrow>
        cast pf (PList (m # p # d # h # st # extra)) = Inr x
        \<and> cast pf (PTuple (m # p # d # h # st # extra)) = Inr x)"
proof -
  have five: "cast pf (PList xs) = cast pf (PList (take 5 xs))
      \<and> cast pf (PTuple xs) = cast pf (PTuple (take 5 xs))" if "5 < length xs"
  proof -
    from that obtain a xs1 where 1: "xs = a # xs1" "4 < length xs1"
      by (cases xs) auto
    then obtain b xs2 where 2: "xs1 = b # xs2" "3 < length xs2"
      by (cases xs1) auto
    then obtain c xs3 where 3: "xs2 = c # xs3" "2 < length xs3"
      by (cases xs2) auto
    then obtain e xs4 where 4: "xs3 = e # xs4" "1 < length xs4"
      by (cases xs3) auto
    then obtain f rest where 5: "xs4 = f # rest"
      by (cases xs4) auto
    have xs: "xs = a # b # c # e # f # rest"
      using 1 2 3 4 5 by simp
    show ?thesis
      by (simp add: xs cast_def)
  qed
  show ?thesis
    using five by (auto simp: cast_def except_ValueError_def)
qed


theorem cast_ignores_extra_witness:
  "5 < length [PStr ''GET'', PStr ''/$'', PNone, PNone, PInt 404, PStr ''ignored'', PInt 7]
   \<and> cast sample_platform
         (PList [PStr ''GET'', PStr ''/$'', PNone, PNone, PInt 404, PStr ''ignored'', PInt 7])
       = cast sample_platform (PList [PStr ''GET'', PStr ''/$'', PNone, PNone, PInt 404])
   \<and> cast sample_platform
         (PList [PStr ''GET'', PStr ''/$'', PNone, PNone, PInt 404, PStr ''ignored'', PInt 7])
       = Inr \<lparr>meth = ''GET'', path = PStr ''/$'', data = None, headers = [], status = 404\<rparr>"
proof -
  let ?xs = "[PStr ''GET'', PStr ''/$'', PNone, PNone, PInt 404, PStr ''ignored'', PInt 7]"
  have l: "5 < length ?xs" by simp
  have i: "Route_init sample_platform (PStr ''GET'') (PStr ''/$'') PNone PNone (PInt 404)
             = Inr \<lparr>meth = ''GET'', path = PStr ''/$'', data = None, headers = [], status = 404\<rparr>"
    by code_simp
  note t = cast_ignores_extra [where pf = sample_platform and xs = ?xs and m = "PStr ''GET''"
      and p = "PStr ''/$''" and d = PNone and h = PNone and st = "PInt 404"
      and extra = "[PStr ''ignored'', PInt 7]"]
  have 1: "cast sample_platform (PList ?xs) = cast sample_platform (PList (take 5 ?xs))"
    using t l by blast
  have 2: "cast sample_platform (PList ?xs)
             = Inr \<lparr>meth = ''GET'', path = PStr ''/$'', data = None, headers = [], status = 404\<rparr>"
    using t i by blast
  show ?thesis
    using l 1 2 by simp
qed

subsection \<open>The service\<close>

lemma init_routes_falsy: "\<not> truthy rs \<Longrightarrow> init_routes pf rs = Inr []"
  by (simp add: init_routes_def)

lemma Service_init_routes:
  assumes "Service_init pf rs p t d c k sec = Inr s"
  shows "init_routes pf rs = Inr (routes s)"
  using assms by (auto simp: Service_init_def split: sum.splits)

text \<open>
  C7: \<open>start()\<close> on a service whose route list is empty raises \<open>ValueError\<close> and does
  nothing to the outside before it: no socket is bound. A service constructed with no
  routes (\<open>routes=None\<close>, or an empty list) is such a service.
\<close>

theorem start_without_routes:
  "(routes s = [] \<longrightarrow> start io s = (Inl (ValueError ''Routes not defined''), []))
   \<and> (\<not> truthy rs \<and> Service_init pf rs p t d c k sec = Inr s \<longrightarrow>
        start io s = (Inl (ValueError ''Routes not defined''), []))"
proof -
  have empty: "start io s = (Inl (ValueError ''Routes not defined''), [])" if "routes s = []"
    using that by (simp add: start_def)
  have built: "routes s = []"
    if "\<not> truthy rs" "Service_init pf rs p t d c k sec = Inr s"
    using Service_init_routes [OF that(2)] init_routes_falsy [OF that(1), of pf] by simp
  show ?thesis
    using empty built by blast
qed

theorem start_without_routes_witness:
  "\<not> truthy PNone
   \<and> Service_init sample_platform PNone (PInt 8081) (PBool False) (PInt 0) (PStr []) (PStr [])
        (PBool False) = Inr (ab_service\<lparr>routes := []\<rparr>)
   \<and> start slow_release (ab_service\<lparr>routes := []\<rparr>)
       = (Inl (ValueError ''Routes not defined''), [])"
proof -
  have f: "\<not> truthy PNone" by simp
  have i: "Service_init sample_platform PNone (PInt 8081) (PBool False) (PInt 0) (PStr []) (PStr [])
        (PBool False) = Inr (ab_service\<lparr>routes := []\<rparr>)"
    by code_simp
  have "start slow_release (ab_service\<lparr>routes := []\<rparr>)
       = (Inl (ValueError ''Routes not defined''), [])"
    using start_without_routes [where io = slow_release and s = "ab_service\<lparr>routes := []\<rparr>"
        and rs = PNone and pf = sample_platform and p = "PInt 8081" and t = "PBool False"
        and d = "PInt 0" and c = "PStr []" and k = "PStr []" and sec = "PBool False"] f i
    by blast
  with f i show ?thesis by blast
qed

text \<open>
  C8, as amended: for a service whose \<open>key\<close> and \<open>crt\<close> are texts on which the existence
  test \<open>Path(x).exists()\<close> returns: when \<open>secure\<close> is true, the construction fails unless
  both name paths that exist (the empty text, the default, counting as no path), and
  it raises the \<open>ValueError\<close> of \<open>__set_secure\<close> whenever the other arguments are valid,
  that is, whenever the same call without \<open>secure\<close> returns. When both exist it returns
  what the call without \<open>secure\<close> returns, with \<open>secure\<close> stored. When \<open>secure\<close> is false
  no error comes from \<open>key\<close> or \<open>crt\<close>: the construction fails only with the error of the
  routes, the port or the delay, and returns when these are valid. The claim as
  stated, for every construction, fails: the setters of \<open>key\<close> and \<open>crt\<close> catch
  \<open>TypeError\<close> only, so a path on which \<open>exists()\<close> raises an \<open>OSError\<close>, such as a name
  that is too long, makes the construction raise it, with \<open>secure\<close> or without.
\<close>

theorem secure_needs_key_and_crt:
  "(path_exists pf cs = Inr ce \<and> path_exists pf ks = Inr ke \<and> truthy sec
      \<and> \<not> (ce \<and> cs \<noteq> [] \<and> ke \<and> ks \<noteq> []) \<longrightarrow>
      (\<exists>e. Service_init pf rs p t d (PStr cs) (PStr ks) sec = Inl e)
      \<and> (\<forall>s0. Service_init pf rs p t d (PStr cs) (PStr ks) (PBool False) = Inr s0 \<longrightarrow>
            Service_init pf rs p t d (PStr cs) (PStr ks) sec
              = Inl (ValueError (if ce \<and> cs \<noteq> []
                                 then ''key not exists but ssl is enabled''
                                 else ''crt not exists but ssl is enabled''))))
   \<and> (path_exists pf cs = Inr True \<and> path_exists pf ks = Inr True \<and> truthy sec
      \<and> cs \<noteq> [] \<and> ks \<noteq> [] \<longrightarrow>
      Service_init pf rs p t d (PStr cs) (PStr ks) sec
        = map_sum id (\<lambda>s0. s0\<lparr>secure := sec\<rparr>)
            (Service_init pf rs p t d (PStr cs) (PStr ks) (PBool False)))
   \<and> (path_exists pf cs = Inr ce \<and> path_exists pf ks = Inr ke \<and> \<not> truthy sec \<longrightarrow>
      (\<forall>e. Service_init pf rs p t d (PStr cs) (PStr ks) sec = Inl e \<longrightarrow>
            init_routes pf rs = Inl e \<or> set_port pf p = Inl e \<or> set_delay pf d = Inl e)
      \<and> (\<forall>rs' p' d'. init_routes pf rs = Inr rs' \<and> set_port pf p = Inr p'
            \<and> set_delay pf d = Inr d' \<longrightarrow>
            (\<exists>s0. Service_init pf rs p t d (PStr cs) (PStr ks) sec = Inr s0)))"
proof -
  have missing: "(\<exists>e. Service_init pf rs p t d (PStr cs) (PStr ks) sec = Inl e)
      \<and> (\<forall>s0. Service_init pf rs p t d (PStr cs) (PStr ks) (PBool False) = Inr s0 \<longrightarrow>
            Service_init pf rs p t d (PStr cs) (PStr ks) sec
              = Inl (ValueError (if ce \<and> cs \<noteq> []
                                 then ''key not exists but ssl is enabled''
                                 else ''crt not exists but ssl is enabled'')))"
    if "path_exists pf cs = Inr ce" "path_exists pf ks = Inr ke" "truthy sec"
      "\<not> (ce \<and> cs \<noteq> [] \<and> ke \<and> ks \<noteq> [])"
    using that
    by (auto simp: Service_init_def set_crt_def set_key_def set_secure_def split: sum.splits)
  have present: "Service_init pf rs p t d (PStr cs) (PStr ks) sec
        = map_sum id (\<lambda>s0. s0\<lparr>secure := sec\<rparr>)
            (Service_init pf rs p t d (PStr cs) (PStr ks) (PBool False))"
    if "path_exists pf cs = Inr True" "path_exists pf ks = Inr True" "truthy sec"
      "cs \<noteq> []" "ks \<noteq> []"
    using that
    by (simp add: Service_init_def set_crt_def set_key_def set_secure_def split: sum.splits)
  have off1: "init_routes pf rs = Inl e \<or> set_port pf p = Inl e \<or> set_delay pf d = Inl e"
    if "path_exists pf cs = Inr ce" "path_exists pf ks = Inr ke" "\<not> truthy sec"
      "Service_init pf rs p t d (PStr cs) (PStr ks) sec = Inl e" for e
    using that
    by (auto simp: Service_init_def set_crt_def set_key_def set_secure_def
        split: sum.splits if_splits)
  have off2: "\<exists>s0. Service_init pf rs p t d (PStr cs) (PStr ks) sec = Inr s0"
    if "path_exists pf cs = Inr ce" "path_exists pf ks = Inr ke" "\<not> truthy sec"
      "init_routes pf rs = Inr rs'" "set_port pf p = Inr p'" "set_delay pf d = Inr d'"
    for rs' p' d'
    using that
    by (simp add: Service_init_def set_crt_def set_key_def set_secure_def)
  show ?thesis
    using missing present off1 off2 by blast
qed

theorem secure_needs_key_and_crt_witness:
  "path_exists sample_platform [] = Inr True
   \<and> path_exists sample_platform ''/etc/ssl/restub.key'' = Inr True
   \<and> truthy (PBool True)
   \<and> \<not> (True \<and> [] \<noteq> ([] :: string) \<and> True \<and> ''/etc/ssl/restub.key'' \<noteq> [])
   \<and> Service_init sample_platform ab_literal (PInt 8081) (PBool False) (PInt 0) (PStr [])
         (PStr ''/etc/ssl/restub.key'') (PBool False)
       = Inr (ab_service\<lparr>key := PStr ''/etc/ssl/restub.key''\<rparr>)
   \<and> Service_init sample_platform ab_literal (PInt 8081) (PBool False) (PInt 0) (PStr [])
         (PStr ''/etc/ssl/restub.key'') (PBool True)
       = Inl (ValueError ''crt not exists but ssl is enabled'')"
proof -
  have x1: "path_exists sample_platform [] = Inr True" by code_simp
  have x2: "path_exists sample_platform ''/etc/ssl/restub.key'' = Inr True" by code_simp
  have h1: "truthy (PBool True)" by simp
  have h2: "\<not> (True \<and> [] \<noteq> ([] :: string) \<and> True \<and> ''/etc/ssl/restub.key'' \<noteq> [])"
    by simp
  have off: "Service_init sample_platform ab_literal (PInt 8081) (PBool False) (PInt 0) (PStr [])
         (PStr ''/etc/ssl/restub.key'') (PBool False)
       = Inr (ab_service\<lparr>key := PStr ''/etc/ssl/restub.key''\<rparr>)"
    by code_simp
  from secure_needs_key_and_crt [where pf = sample_platform and sec = "PBool True" and cs = "[]"
      and ks = "''/etc/ssl/restub.key''" and ce = True and ke = True and rs = ab_literal
      and p = "PInt 8081" and t = "PBool False" and d = "PInt 0", THEN conjunct1] x1 x2 h1 h2
  have "\<forall>s0. Service_init sample_platform ab_literal (PInt 8081) (PBool False) (PInt 0) (PStr [])
         (PStr ''/etc/ssl/restub.key'') (PBool False) = Inr s0 \<longrightarrow>
       Service_init sample_platform ab_literal (PInt 8081) (PBool False) (PInt 0) (PStr [])
         (PStr ''/etc/ssl/restub.key'') (PBool True)
       = Inl (ValueError (if True \<and> [] \<noteq> ([] :: string)
                          then ''key not exists but ssl is enabled''
                          else ''crt not exists but ssl is enabled''))"
    by blast
  with off have "Service_init sample_platform ab_literal (PInt 8081) (PBool False) (PInt 0) (PStr [])
         (PStr ''/etc/ssl/restub.key'') (PBool True)
       = Inl (ValueError ''crt not exists but ssl is enabled'')"
    by simp
  with x1 x2 h1 h2 off show ?thesis by blast
qed

theorem secure_needs_key_and_crt_counterexample:
  "\<not> truthy (PBool False)
   \<and> path_exists sample_platform (replicate 300 (CHR ''x''))
       = Inl (OSError (Some 36) ''File name too long'')
   \<and> Service_init sample_platform ab_literal (PInt 8081) (PBool False) (PInt 0) (PStr [])
         (PStr (replicate 300 (CHR ''x''))) (PBool False)
       = Inl (OSError (Some 36) ''File name too long'')
   \<and> Service_init sample_platform ab_literal (PInt 8081) (PBool False) (PInt 0) (PStr [])
         (PStr (replicate 300 (CHR ''x''))) (PBool True)
       = Inl (OSError (Some 36) ''File name too long'')"
  by code_simp

text \<open>
  C9: the route that \<open>put(path, headers, status)\<close> appends has no body. The builder
  passes \<open>None\<close> for the payload, where \<open>get\<close>, \<open>post\<close> and \<open>delete\<close> pass their \<open>data\<close>
  argument, so the headers of the route are the caller's headers merged into the empty
  dictionary: \<open>Content-type\<close> and \<open>Content-length\<close> are there only if the caller supplies
  them.
\<close>

theorem put_has_no_body:
  "(put pf s p h st = Inr s' \<longrightarrow>
      (\<exists>r. routes s' = routes s @ [r] \<and> meth r = ''PUT'' \<and> data r = None
           \<and> init_headers [] h = Inr (headers r)
           \<and> (\<not> truthy h \<longrightarrow> headers r = [])
           \<and> (\<forall>kvs k. h = PDict kvs \<longrightarrow>
                 dict_get (headers r) (PStr k) = map_of (rev kvs) k)))
   \<and> put pf s p h st = append_route s (Route_init pf (PStr ''PUT'') p PNone h st)
   \<and> get pf s p d h st = append_route s (Route_init pf (PStr ''GET'') p d h st)
   \<and> post pf s p d h st = append_route s (Route_init pf (PStr ''POST'') p d h st)
   \<and> delete pf s p d h st = append_route s (Route_init pf (PStr ''DELETE'') p d h st)"
proof -
  have built: "\<exists>r. routes s' = routes s @ [r] \<and> meth r = ''PUT'' \<and> data r = None
           \<and> init_headers [] h = Inr (headers r)
           \<and> (\<not> truthy h \<longrightarrow> headers r = [])
           \<and> (\<forall>kvs k. h = PDict kvs \<longrightarrow>
                 dict_get (headers r) (PStr k) = map_of (rev kvs) k)"
    if "put pf s p h st = Inr s'"
  proof -
    from that obtain r where r: "Route_init pf (PStr ''PUT'') p PNone h st = Inr r"
      and s': "s' = s\<lparr>routes := routes s @ [r]\<rparr>"
      by (auto simp: put_def append_route_def ALLOWED_def split: sum.splits)
    have u: "upper ''PUT'' = ''PUT''" by code_simp
    from r have m: "meth r = ''PUT''"
      by (auto simp: Route_init_def init_method_def u split: sum.splits prod.splits if_splits)
    from r have b: "data r = None" and hs: "init_headers [] h = Inr (headers r)"
      by (auto simp: Route_init_def init_data_def split: sum.splits prod.splits)
    have e: "headers r = []" if "\<not> truthy h"
      using hs that by (simp add: init_headers_def)
    have g: "dict_get (headers r) (PStr k) = map_of (rev kvs) k" if "h = PDict kvs" for kvs k
    proof (cases "kvs = []")
      case True
      with that hs show ?thesis by (simp add: init_headers_def)
    next
      case False
      with that hs have "headers r = fold (\<lambda>(k, v) d'. dict_set d' (PStr k) v) kvs []"
        by (simp add: init_headers_def)
      then show ?thesis
        by (simp add: dict_get_fold_set split: option.splits)
    qed
    show ?thesis
      using s' m b hs e g by auto
  qed
  show ?thesis
    using built by (simp add: put_def get_def post_def delete_def ALLOWED_def)
qed

theorem put_has_no_body_witness:
  "put sample_platform ab_service (PStr ''/items/1$'') (PDict [(''X-Trace'', PStr ''on'')]) (PInt 204)
     = Inr (ab_service\<lparr>routes := [route_a_end, route_a_any,
              \<lparr>meth = ''PUT'', path = PStr ''/items/1$'', data = None,
               headers = [(PStr ''X-Trace'', PStr ''on'')], status = 204\<rparr>]\<rparr>)
   \<and> data (last (routes (ab_service\<lparr>routes := [route_a_end, route_a_any,
              \<lparr>meth = ''PUT'', path = PStr ''/items/1$'', data = None,
               headers = [(PStr ''X-Trace'', PStr ''on'')], status = 204\<rparr>]\<rparr>))) = None
   \<and> get sample_platform ab_service (PStr ''/items/1$'') (PStr ''{}'') PNone (PInt 200)
     = Inr (ab_service\<lparr>routes := [route_a_end, route_a_any,
              \<lparr>meth = ''GET'', path = PStr ''/items/1$'', data = Some (encode ''{}''),
               headers = [(PStr ''Content-type'', PStr ''application/json''),
                          (PStr ''Content-length'', PInt 2)], status = 200\<rparr>]\<rparr>)"
proof -
  let ?s' = "ab_service\<lparr>routes := [route_a_end, route_a_any,
              \<lparr>meth = ''PUT'', path = PStr ''/items/1$'', data = None,
               headers = [(PStr ''X-Trace'', PStr ''on'')], status = 204\<rparr>]\<rparr>"
  have p: "put sample_platform ab_service (PStr ''/items/1$'') (PDict [(''X-Trace'', PStr ''on'')])
             (PInt 204) = Inr ?s'"
    by code_simp
  have g: "get sample_platform ab_service (PStr ''/items/1$'') (PStr ''{}'') PNone (PInt 200)
     = Inr (ab_service\<lparr>routes := [route_a_end, route_a_any,
              \<lparr>meth = ''GET'', path = PStr ''/items/1$'', data = Some (encode ''{}''),
               headers = [(PStr ''Content-type'', PStr ''application/json''),
                          (PStr ''Content-length'', PInt 2)], status = 200\<rparr>]\<rparr>)"
    by code_simp
  from put_has_no_body [where pf = sample_platform and s = ab_service and p = "PStr ''/items/1$''"
      and h = "PDict [(''X-Trace'', PStr ''on'')]" and st = "PInt 204" and s' = ?s',
      THEN conjunct1] p
  obtain r where r: "routes ?s' = routes ab_service @ [r]" "data r = None"
    by blast
  from r(1) have "last (routes ?s') = r" by simp
  with r(2) have "data (last (routes ?s')) = None" by simp
  with p g show ?thesis by blast
qed

end
